theory Spec2Isabelle
  imports Complex_Main "HOL-Library.Extended_Nat" "HOL-Library.Multiset"
begin

section \<open>JavaScript values\<close>

text \<open>
  The values the two source files handle are JSON data: the parsed socket frames, the
  session records of the session store and the filter literals of the node configuration.
  A number is a double; no arithmetic is done on numbers here, only comparison, so a
  finite number is represented by its exact rational value (\<open>-0\<close> and \<open>+0\<close>, which no
  operation used below tells apart, are both \<open>Fin 0\<close>). Strings are lists of code units.
\<close>

datatype jsnum = NaN | NegInf | Fin rat | PosInf

text \<open>
  \<open>JBuiltin\<close> stands for the objects and functions of the engine that a property access
  reaches through the prototype chain (\<open>constructor\<close>, \<open>toString\<close>, ...), each known by
  its name.
\<close>

datatype jsval =
    JUndefined
  | JNull
  | JBool bool
  | JNum jsnum
  | JStr string
  | JArr "jsval list"
  | JObj "(string \<times> jsval) list"
  | JBuiltin string

text \<open>
  The two \<open>TypeError\<close>s of this program: reading a property of \<open>undefined\<close> or \<open>null\<close>,
  and calling what is not a function. Their message is the engine's.
\<close>

datatype type_error = CannotRead jsval string | NotAFunction string

datatype js_error =
    TypeError type_error
  | SyntaxError string
  | Error string
  | Thrown jsval

text \<open>
  What the JavaScript engine defines and the sources only use is a parameter of the
  model, and every theorem below holds for any choice of it: parsing a string as a
  number and printing a number (algorithms on doubles), the members a value inherits
  from the built-in prototypes (\<open>inherited rt v k\<close> is the value of \<open>v[k]\<close> when \<open>k\<close>
  is not an own property of \<open>v\<close>, \<open>undefined\<close> if the prototype chain has none), the
  string of a built-in object, and the message of a \<open>TypeError\<close>.
\<close>

record runtime =
  str_to_num :: "string \<Rightarrow> jsnum"
  num_to_str :: "jsnum \<Rightarrow> string"
  inherited :: "jsval \<Rightarrow> string \<Rightarrow> jsval"
  builtin_to_str :: "string \<Rightarrow> string"
  type_error_text :: "type_error \<Rightarrow> string"

subsection \<open>Conversions: \<open>Boolean\<close>, \<open>String\<close>, \<open>Number\<close>\<close>

fun truthy :: "jsval \<Rightarrow> bool" where
  "truthy JUndefined = False"
| "truthy JNull = False"
| "truthy (JBool b) = b"
| "truthy (JNum n) = (n \<noteq> NaN \<and> n \<noteq> Fin 0)"
| "truthy (JStr s) = (s \<noteq> [])"
| "truthy (JArr xs) = True"
| "truthy (JObj fs) = True"
| "truthy (JBuiltin n) = True"

fun join_comma :: "string list \<Rightarrow> string" where
  "join_comma [] = []"
| "join_comma [s] = s"
| "join_comma (s # t # ss) = s @ '','' @ join_comma (t # ss)"

text \<open>
  \<open>String(v)\<close>. An array prints as its elements joined by commas, where \<open>undefined\<close>
  and \<open>null\<close> elements print as the empty string; a plain object prints as
  \<open>[object Object]\<close>.
\<close>

fun js_String :: "runtime \<Rightarrow> jsval \<Rightarrow> string" where
  "js_String rt JUndefined = ''undefined''"
| "js_String rt JNull = ''null''"
| "js_String rt (JBool b) = (if b then ''true'' else ''false'')"
| "js_String rt (JNum n) = num_to_str rt n"
| "js_String rt (JStr s) = s"
| "js_String rt (JArr xs) =
     join_comma (map (\<lambda>x. if x = JUndefined \<or> x = JNull then [] else js_String rt x) xs)"
| "js_String rt (JObj fs) = ''[object Object]''"
| "js_String rt (JBuiltin n) = builtin_to_str rt n"

text \<open>
  \<open>Number(v)\<close>. An object or array is first turned into a primitive, which for plain
  objects and arrays is its string.
\<close>

fun js_Number :: "runtime \<Rightarrow> jsval \<Rightarrow> jsnum" where
  "js_Number rt JUndefined = NaN"
| "js_Number rt JNull = Fin 0"
| "js_Number rt (JBool b) = (if b then Fin 1 else Fin 0)"
| "js_Number rt (JNum n) = n"
| "js_Number rt (JStr s) = str_to_num rt s"
| "js_Number rt (JArr xs) = str_to_num rt (js_String rt (JArr xs))"
| "js_Number rt (JObj fs) = str_to_num rt (js_String rt (JObj fs))"
| "js_Number rt (JBuiltin n) = str_to_num rt (js_String rt (JBuiltin n))"

fun is_object :: "jsval \<Rightarrow> bool" where
  "is_object (JArr xs) = True"
| "is_object (JObj fs) = True"
| "is_object (JBuiltin n) = True"
| "is_object v = False"

fun nullish :: "jsval \<Rightarrow> bool" where
  "nullish JUndefined = True"
| "nullish JNull = True"
| "nullish v = False"

definition to_primitive :: "runtime \<Rightarrow> jsval \<Rightarrow> jsval" where
  "to_primitive rt v = (if is_object v then JStr (js_String rt v) else v)"

subsection \<open>Comparison operators\<close>

definition num_eq :: "jsnum \<Rightarrow> jsnum \<Rightarrow> bool" where
  "num_eq a b = (a \<noteq> NaN \<and> b \<noteq> NaN \<and> a = b)"

text \<open>\<open>num_lt a b\<close> is \<open>None\<close> (JavaScript's \<open>undefined\<close>) when an operand is \<open>NaN\<close>.\<close>

fun num_lt :: "jsnum \<Rightarrow> jsnum \<Rightarrow> bool option" where
  "num_lt NaN b = None"
| "num_lt a NaN = None"
| "num_lt (Fin x) (Fin y) = Some (x < y)"
| "num_lt NegInf b = Some (b \<noteq> NegInf)"
| "num_lt a PosInf = Some (a \<noteq> PosInf)"
| "num_lt a b = Some False"

fun str_lt :: "string \<Rightarrow> string \<Rightarrow> bool" where
  "str_lt [] [] = False"
| "str_lt [] (y # ys) = True"
| "str_lt (x # xs) [] = False"
| "str_lt (x # xs) (y # ys) =
     (if x = y then str_lt xs ys else (of_char x :: nat) < of_char y)"

text \<open>
  Strict equality \<open>===\<close>. Two objects (or arrays) are equal only when they are the same
  reference; the values compared in this program come from different parses and
  different sources, so two objects are never the same reference. A built-in object is
  the same reference wherever it is reached.
\<close>

fun strict_eq :: "jsval \<Rightarrow> jsval \<Rightarrow> bool" where
  "strict_eq JUndefined JUndefined = True"
| "strict_eq JNull JNull = True"
| "strict_eq (JBool a) (JBool b) = (a = b)"
| "strict_eq (JNum a) (JNum b) = num_eq a b"
| "strict_eq (JStr a) (JStr b) = (a = b)"
| "strict_eq (JBuiltin a) (JBuiltin b) = (a = b)"
| "strict_eq x y = False"

text \<open>
  Loose equality \<open>==\<close>: \<open>null\<close> and \<open>undefined\<close> equal each other and nothing else;
  objects become primitives; two strings compare as strings; every other pair of
  primitives compares as numbers.
\<close>

definition loose_eq :: "runtime \<Rightarrow> jsval \<Rightarrow> jsval \<Rightarrow> bool" where
  "loose_eq rt x y =
     (if nullish x \<or> nullish y then nullish x \<and> nullish y
      else if is_object x \<and> is_object y then strict_eq x y
      else (case (to_primitive rt x, to_primitive rt y) of
              (JStr a, JStr b) \<Rightarrow> a = b
            | (px, py) \<Rightarrow> num_eq (js_Number rt px) (js_Number rt py)))"

text \<open>
  The abstract relational comparison \<open>x < y\<close>, \<open>None\<close> for \<open>undefined\<close>: two strings
  compare by code units, everything else as numbers.
\<close>

definition js_lt :: "runtime \<Rightarrow> jsval \<Rightarrow> jsval \<Rightarrow> bool option" where
  "js_lt rt x y =
     (case (to_primitive rt x, to_primitive rt y) of
        (JStr a, JStr b) \<Rightarrow> Some (str_lt a b)
      | (px, py) \<Rightarrow> num_lt (js_Number rt px) (js_Number rt py))"

subsection \<open>Property access\<close>

definition is_digit :: "char \<Rightarrow> bool" where
  "is_digit c = (let n = (of_char c :: nat) in 48 \<le> n \<and> n \<le> 57)"

text \<open>A property key is an array index when it is the canonical decimal numeral of it.\<close>

definition array_index :: "string \<Rightarrow> nat option" where
  "array_index k =
     (if k = [] \<or> \<not> list_all is_digit k \<or> (hd k = CHR ''0'' \<and> 1 < length k) then None
      else Some (fold (\<lambda>c n. 10 * n + (of_char c - 48)) k 0))"

text \<open>
  \<open>v[k]\<close>. Reading a property of \<open>undefined\<close> or \<open>null\<close> throws a \<open>TypeError\<close>. On
  anything else the own properties come first (the fields of an object, the elements and
  the \<open>length\<close> of an array or a string), and a key that is no own property is looked
  up along the prototype chain.
\<close>

fun get_prop :: "runtime \<Rightarrow> jsval \<Rightarrow> string \<Rightarrow> js_error + jsval" where
  "get_prop rt JUndefined k = Inl (TypeError (CannotRead JUndefined k))"
| "get_prop rt JNull k = Inl (TypeError (CannotRead JNull k))"
| "get_prop rt (JBool b) k = Inr (inherited rt (JBool b) k)"
| "get_prop rt (JNum n) k = Inr (inherited rt (JNum n) k)"
| "get_prop rt (JStr s) k =
     (if k = ''length'' then Inr (JNum (Fin (of_nat (length s))))
      else (case array_index k of
              Some i \<Rightarrow>
                if i < length s then Inr (JStr [s ! i]) else Inr (inherited rt (JStr s) k)
            | None \<Rightarrow> Inr (inherited rt (JStr s) k)))"
| "get_prop rt (JArr xs) k =
     (if k = ''length'' then Inr (JNum (Fin (of_nat (length xs))))
      else (case array_index k of
              Some i \<Rightarrow>
                if i < length xs then Inr (xs ! i) else Inr (inherited rt (JArr xs) k)
            | None \<Rightarrow> Inr (inherited rt (JArr xs) k)))"
| "get_prop rt (JObj fs) k =
     (case map_of fs k of Some v \<Rightarrow> Inr v | None \<Rightarrow> Inr (inherited rt (JObj fs) k))"
| "get_prop rt (JBuiltin n) k = Inr (inherited rt (JBuiltin n) k)"

text \<open>\<open>o[k] = v\<close> on a plain object.\<close>

fun set_field :: "(string \<times> jsval) list \<Rightarrow> string \<Rightarrow> jsval \<Rightarrow> (string \<times> jsval) list" where
  "set_field [] k v = [(k, v)]"
| "set_field ((k', v') # fs) k v =
     (if k' = k then (k, v) # fs else (k', v') # set_field fs k v)"

section \<open>The playing node (\<open>src/nodes/playing.js\<close>)\<close>

subsection \<open>Filters\<close>

text \<open>
  A filter of the node configuration. The source switches on the strings \<open>valueType\<close>
  and \<open>operator\<close>: \<open>VDefault\<close> stands for every value type other than \<open>str\<close>,
  \<open>num\<close> and \<open>bool\<close> (no case of the switch applies), and the operator is one of the
  six the switch knows.
\<close>

datatype value_type = VStr | VNum | VBool | VDefault

datatype operator = OpEq | OpNeq | OpLt | OpLte | OpGt | OpGte

record filter_spec =
  key :: string
  fvalue :: jsval
  valueType :: value_type
  operator :: operator
  idx :: int

record playing_node =
  filters :: "filter_spec list"

text \<open>
  The comparator of the constructor,
  \<^verbatim>\<open>(a, b) => a.idx > b.idx ? 1 : a.idx < b.idx ? -1 : 0\<close>,
  and \<open>Array.prototype.sort\<close>, a stable sort by a comparator.
\<close>

definition cmp_idx :: "filter_spec \<Rightarrow> filter_spec \<Rightarrow> int" where
  "cmp_idx a b = (if idx a > idx b then 1 else if idx a < idx b then - 1 else 0)"

fun insert_by :: "('a \<Rightarrow> 'a \<Rightarrow> int) \<Rightarrow> 'a \<Rightarrow> 'a list \<Rightarrow> 'a list" where
  "insert_by cmp x [] = [x]"
| "insert_by cmp x (y # ys) = (if cmp x y \<le> 0 then x # y # ys else y # insert_by cmp x ys)"

definition js_sort :: "('a \<Rightarrow> 'a \<Rightarrow> int) \<Rightarrow> 'a list \<Rightarrow> 'a list" where
  "js_sort cmp xs = foldr (insert_by cmp) xs []"

text \<open>The constructor: \<^verbatim>\<open>this.filters = config.filters || []\<close>, then the sort.\<close>

definition PlayingNode :: "filter_spec list option \<Rightarrow> playing_node" where
  "PlayingNode config_filters =
     \<lparr>filters = js_sort cmp_idx (case config_filters of None \<Rightarrow> [] | Some fs \<Rightarrow> fs)\<rparr>"

text \<open>\<open>key.split('.')\<close>: one part more than there are dots.\<close>

fun split_dot :: "string \<Rightarrow> string list" where
  "split_dot [] = [[]]"
| "split_dot (c # cs) =
     (if c = CHR ''.'' then [] # split_dot cs
      else (case split_dot cs of [] \<Rightarrow> [[c]] | p # ps \<Rightarrow> (c # p) # ps))"

text \<open>
  The inner loop \<^verbatim>\<open>keyParts.forEach((key) => { sessionValue = sessionValue[key]; })\<close>.
\<close>

fun resolve_path :: "runtime \<Rightarrow> jsval \<Rightarrow> string list \<Rightarrow> js_error + jsval" where
  "resolve_path rt v [] = Inr v"
| "resolve_path rt v (k # ks) =
     (case get_prop rt v k of Inl e \<Rightarrow> Inl e | Inr v' \<Rightarrow> resolve_path rt v' ks)"

text \<open>The first switch: both operands are coerced by the filter's value type.\<close>

fun coerce :: "runtime \<Rightarrow> value_type \<Rightarrow> jsval \<Rightarrow> jsval" where
  "coerce rt VStr v = JStr (js_String rt v)"
| "coerce rt VNum v = JNum (js_Number rt v)"
| "coerce rt VBool v = JBool (truthy v)"
| "coerce rt VDefault v = v"

text \<open>
  The second switch, \<open>filterValue op sessionValue\<close>: the first operand is the filter's
  literal, the second the session's value.
\<close>

fun apply_operator :: "runtime \<Rightarrow> operator \<Rightarrow> jsval \<Rightarrow> jsval \<Rightarrow> bool" where
  "apply_operator rt OpEq filterValue sessionValue = loose_eq rt filterValue sessionValue"
| "apply_operator rt OpNeq filterValue sessionValue = (\<not> loose_eq rt filterValue sessionValue)"
| "apply_operator rt OpLt filterValue sessionValue =
     (js_lt rt filterValue sessionValue = Some True)"
| "apply_operator rt OpLte filterValue sessionValue =
     (js_lt rt sessionValue filterValue = Some False)"
| "apply_operator rt OpGt filterValue sessionValue =
     (js_lt rt sessionValue filterValue = Some True)"
| "apply_operator rt OpGte filterValue sessionValue =
     (js_lt rt filterValue sessionValue = Some False)"

fun operator_name :: "operator \<Rightarrow> string" where
  "operator_name OpEq = ''eq''"
| "operator_name OpNeq = ''neq''"
| "operator_name OpLt = ''lt''"
| "operator_name OpLte = ''lte''"
| "operator_name OpGt = ''gt''"
| "operator_name OpGte = ''gte''"

text \<open>
  \<open>matchesFilters\<close>: the \<open>forEach\<close> over \<open>this.filters\<close> with the accumulator
  \<open>match\<close>. The second accumulator collects the lines written by \<open>console.log\<close>. A
  \<open>TypeError\<close> of the path resolution ends the loop and the function.
\<close>

fun matchesFilters_loop ::
  "runtime \<Rightarrow> filter_spec list \<Rightarrow> jsval \<Rightarrow> bool \<Rightarrow> string list \<Rightarrow> string list \<times> (js_error + bool)"
where
  "matchesFilters_loop rt [] session match out = (out, Inr match)"
| "matchesFilters_loop rt (f # fs) session match out =
     (case resolve_path rt session (split_dot (key f)) of
        Inl e \<Rightarrow> (out, Inl e)
      | Inr v \<Rightarrow>
          (let sessionValue = coerce rt (valueType f) v;
               filterValue = coerce rt (valueType f) (fvalue f);
               comparison = apply_operator rt (operator f) filterValue sessionValue;
               line = ''evaluate '' @ js_String rt filterValue @ '' '' @ operator_name (operator f)
                        @ '' '' @ js_String rt sessionValue
           in matchesFilters_loop rt fs session (match \<and> comparison) (out @ [line])))"

definition matchesFilters :: "runtime \<Rightarrow> playing_node \<Rightarrow> jsval \<Rightarrow> string list \<times> (js_error + bool)" where
  "matchesFilters rt node session = matchesFilters_loop rt (filters node) session True []"

subsection \<open>The session store\<close>

text \<open>
  Modelled from the spec: the session store (\<open>this.server.sessions\<close>, defined in a file
  of the repository that is not among the sources) is a cache keyed by session
  identifier with the two operations \<open>fetch(sessionKey)\<close>, a promise of the session or
  \<open>null\<close>, and \<open>delete(sessionKey)\<close>. A fetch is backed by an HTTP call, so its outcome
  is an input: it is rejected with a reason, or it resolves to the record the cache holds
  for the key (\<open>null\<close> if none). The record is shared with the cache: what the node
  writes into it is written into the cache.
\<close>

record sessions =
  cache :: "jsval \<Rightarrow> (string \<times> jsval) list option"
  delete_calls :: "jsval list"

datatype fetch_outcome = Rejected js_error | Resolved

definition sessions_fetch :: "sessions \<Rightarrow> jsval \<Rightarrow> fetch_outcome \<Rightarrow> js_error + jsval" where
  "sessions_fetch st k outcome =
     (case outcome of
        Rejected reason \<Rightarrow> Inl reason
      | Resolved \<Rightarrow> (case cache st k of None \<Rightarrow> Inr JNull | Some fs \<Rightarrow> Inr (JObj fs)))"

definition sessions_delete :: "jsval \<Rightarrow> sessions \<Rightarrow> sessions" where
  "sessions_delete k st = st\<lparr>cache := (cache st)(k := None), delete_calls := delete_calls st @ [k]\<rparr>"

subsection \<open>The \<open>playing\<close> listener\<close>

text \<open>The message sent downstream, \<^verbatim>\<open>{ payload: state, plex: notification, session: session }\<close>.\<close>

record msg =
  msg_payload :: jsval
  msg_plex :: jsval
  msg_session :: jsval

text \<open>What the listener acts on: the store, the messages sent downstream, the warnings
  and the console.\<close>

record node_world =
  store :: sessions
  sent :: "msg list"
  warnings :: "string list"
  console :: "string list"

fun error_String :: "runtime \<Rightarrow> js_error \<Rightarrow> string" where
  "error_String rt (TypeError e) = ''TypeError: '' @ type_error_text rt e"
| "error_String rt (SyntaxError m) = ''SyntaxError: '' @ m"
| "error_String rt (Error m) = ''Error: '' @ m"
| "error_String rt (Thrown v) = js_String rt v"

text \<open>
  The callback of \<open>then\<close> (lines 78 to 95). It returns the error it throws, if any, with
  the world as the throw left it. The assignment \<open>session['prevState'] = state\<close> writes
  into the record the cache holds.
\<close>

definition then_callback ::
  "runtime \<Rightarrow> playing_node \<Rightarrow> jsval \<Rightarrow> jsval \<Rightarrow> jsval \<Rightarrow> jsval \<Rightarrow> node_world
     \<Rightarrow> js_error option \<times> node_world"
where
  "then_callback rt node state notification sessionKey sess w =
     (let m = \<lparr>msg_payload = state, msg_plex = notification, msg_session = sess\<rparr>;
          r = (if \<not> truthy sess then (None, w)
               else (case get_prop rt sess ''prevState'' of
                       Inl e \<Rightarrow> (Some e, w)
                     | Inr prev \<Rightarrow>
                         if \<not> strict_eq prev state then
                           (case matchesFilters rt node sess of
                              (out, Inl e) \<Rightarrow> (Some e, w\<lparr>console := console w @ out\<rparr>)
                            | (out, Inr matched) \<Rightarrow>
                                (let w1 = w\<lparr>console := console w @ out\<rparr>;
                                     w2 = (if matched then w1\<lparr>sent := sent w1 @ [m]\<rparr> else w1);
                                     st = store w2
                                 in (case sess of
                                       JObj fs \<Rightarrow>
                                         (None, w2\<lparr>store := st\<lparr>cache := (cache st)
                                            (sessionKey \<mapsto> set_field fs ''prevState'' state)\<rparr>\<rparr>)
                                     | _ \<Rightarrow> (None, w2))))
                         else (None, w)))
      in case r of
           (Some e, w') \<Rightarrow> (Some e, w')
         | (None, w') \<Rightarrow>
             if strict_eq state (JStr ''stopped'')
             then (None, w'\<lparr>store := sessions_delete sessionKey (store w')\<rparr>)
             else (None, w'))"

text \<open>
  The listener registered by \<open>begin\<close>. Reading \<open>notification['sessionKey']\<close> can throw
  before the fetch starts; a rejected fetch and an error thrown by the callback of
  \<open>then\<close> both reach the handler of \<open>catch\<close>, which warns.
\<close>

definition warn :: "runtime \<Rightarrow> js_error \<Rightarrow> node_world \<Rightarrow> node_world" where
  "warn rt reason w =
     w\<lparr>warnings := warnings w @ [''failed to fetch session details from Plex: '' @ error_String rt reason]\<rparr>"

definition playing_listener ::
  "runtime \<Rightarrow> playing_node \<Rightarrow> jsval \<Rightarrow> jsval \<Rightarrow> fetch_outcome \<Rightarrow> node_world
     \<Rightarrow> js_error option \<times> node_world"
where
  "playing_listener rt node state notification outcome w =
     (case get_prop rt notification ''sessionKey'' of
        Inl e \<Rightarrow> (Some e, w)
      | Inr sessionKey \<Rightarrow>
          (case sessions_fetch (store w) sessionKey outcome of
             Inl reason \<Rightarrow> (None, warn rt reason w)
           | Inr sess \<Rightarrow>
               (case then_callback rt node state notification sessionKey sess w of
                  (Some e, w') \<Rightarrow> (None, warn rt e w')
                | (None, w') \<Rightarrow> (None, w'))))"

section \<open>The notification transport (\<open>PlexSocket\<close>)\<close>

subsection \<open>State\<close>

datatype ready_state = CONNECTING | OPEN | CLOSING | CLOSED

datatype event_name =
    N_open | N_playing | N_notification | N_message | N_error | N_unauthorized
  | N_unexpected_response | N_close | N_pong_timeout | N_reconnect_max_retries | N_pong

text \<open>An argument of an event is a value or an error object.\<close>

datatype arg = AVal jsval | AErr js_error

datatype event =
    EvOpen jsval
  | EvPlaying jsval jsval
  | EvNotification jsval
  | EvMessage jsval
  | EvError js_error
  | EvUnauthorized
  | EvUnexpectedResponse jsval jsval
  | EvClose arg arg
  | EvPongTimeout
  | EvReconnectMaxRetries enat
  | EvPong

fun name_of :: "event \<Rightarrow> event_name" where
  "name_of (EvOpen d) = N_open"
| "name_of (EvPlaying s n) = N_playing"
| "name_of (EvNotification n) = N_notification"
| "name_of (EvMessage p) = N_message"
| "name_of (EvError e) = N_error"
| "name_of EvUnauthorized = N_unauthorized"
| "name_of (EvUnexpectedResponse req res) = N_unexpected_response"
| "name_of (EvClose c r) = N_close"
| "name_of EvPongTimeout = N_pong_timeout"
| "name_of (EvReconnectMaxRetries n) = N_reconnect_max_retries"
| "name_of EvPong = N_pong"

text \<open>The three callbacks the transport hands to \<open>setTimeout\<close>.\<close>

datatype timer_callback = CbPing | CbPongTimeout | CbReconnect

datatype timer_op = SetTimeout nat timer_callback nat | ClearTimeout nat

text \<open>Calls on the socket library: the constructor, the registration of the seven
  handlers, and the methods of a socket.\<close>

datatype socket_op =
    Construct string jsval
  | Handlers nat
  | SendPing nat string
  | SendPong nat string
  | CloseSocket nat
  | Terminate nat

text \<open>The argument of the constructor, with its defaults filled in by the caller.\<close>

record options =
  opt_hostname :: jsval
  opt_port :: jsval
  opt_token :: jsval
  opt_secure :: jsval
  opt_pingInterval :: nat
  opt_pingTimeout :: nat
  opt_reconnectInterval :: nat
  opt_reconnectMaxRetries :: enat
  opt_autoConnect :: bool

text \<open>
  The fields of a \<open>PlexSocket\<close>, and below them what it acts on: the listeners of its
  events and the events emitted, the pending timers (handle, callback, delay) with the
  history of timer calls, and the history of socket calls. The current socket is its
  identity and its \<open>readyState\<close>. The retry counter is a natural number.
\<close>

record transport =
  hostname :: jsval
  port :: jsval
  token :: jsval
  secure :: jsval
  pingInterval :: nat
  pingTimeout :: nat
  reconnectInterval :: nat
  reconnectMaxRetries :: enat
  autoConnect :: bool
  shouldClose :: bool
  retries :: nat
  socket :: "(nat \<times> ready_state) option"
  pinger :: "nat option"
  awaitPong :: "nat option"
  listeners :: "event_name list"
  emitted :: "event list"
  timers :: "(nat \<times> timer_callback \<times> nat) list"
  timer_log :: "timer_op list"
  next_timer :: nat
  socket_log :: "socket_op list"
  next_socket :: nat

text \<open>
  What the transport calls and does not define: \<open>JSON.parse\<close> and the constructor of
  the socket library, which returns a socket or throws.
\<close>

record host =
  JSON_parse :: "string \<Rightarrow> js_error + jsval"
  WebSocket_new :: "string \<Rightarrow> jsval \<Rightarrow> js_error option"

subsection \<open>Events and timers\<close>

text \<open>
  \<open>emit\<close> of \<open>EventEmitter\<close>: it returns whether the event has a listener; an \<open>error\<close>
  event without a listener throws its error.
\<close>

definition emit :: "event \<Rightarrow> transport \<Rightarrow> (js_error + bool) \<times> transport" where
  "emit ev t =
     (let t' = t\<lparr>emitted := emitted t @ [ev]\<rparr>
      in case ev of
           EvError err \<Rightarrow>
             if N_error \<in> set (listeners t) then (Inr True, t') else (Inl err, t')
         | _ \<Rightarrow> (Inr (name_of ev \<in> set (listeners t)), t'))"

definition setTimeout :: "timer_callback \<Rightarrow> nat \<Rightarrow> transport \<Rightarrow> nat \<times> transport" where
  "setTimeout cb delay t =
     (next_timer t,
      t\<lparr>timers := timers t @ [(next_timer t, cb, delay)],
        timer_log := timer_log t @ [SetTimeout (next_timer t) cb delay],
        next_timer := Suc (next_timer t)\<rparr>)"

definition clearTimeout :: "nat \<Rightarrow> transport \<Rightarrow> transport" where
  "clearTimeout h t =
     t\<lparr>timers := filter (\<lambda>x. fst x \<noteq> h) (timers t),
       timer_log := timer_log t @ [ClearTimeout h]\<rparr>"

definition socket_call :: "socket_op \<Rightarrow> transport \<Rightarrow> transport" where
  "socket_call c t = t\<lparr>socket_log := socket_log t @ [c]\<rparr>"

subsection \<open>Methods\<close>

text \<open>\<open>this.https\<close> is assigned nowhere, so it reads as \<open>undefined\<close>.\<close>

definition buildAddress :: "runtime \<Rightarrow> transport \<Rightarrow> string" where
  "buildAddress rt t =
     (let protocol = (if truthy JUndefined then ''wss'' else ''ws'')
      in protocol @ ''://'' @ js_String rt (hostname t) @ '':'' @ js_String rt (port t)
           @ ''/:/websockets/notifications'')"

definition isReady :: "transport \<Rightarrow> bool" where
  "isReady t =
     (case socket t of
        None \<Rightarrow> False
      | Some (i, r) \<Rightarrow> r = OPEN \<and> \<not> shouldClose t)"

definition onClose :: "arg \<Rightarrow> arg \<Rightarrow> transport \<Rightarrow> js_error option \<times> transport" where
  "onClose code reason t =
     (let t1 = (case pinger t of
                  Some h \<Rightarrow> (clearTimeout h t)\<lparr>pinger := None\<rparr>
                | None \<Rightarrow> t);
          t2 = (case awaitPong t1 of
                  Some h \<Rightarrow> (clearTimeout h t1)\<lparr>awaitPong := None\<rparr>
                | None \<Rightarrow> t1)
      in if \<not> shouldClose t2 then (None, snd (setTimeout CbReconnect (reconnectInterval t2) t2))
         else (case emit (EvClose code reason) t2 of
                 (Inl e, t3) \<Rightarrow> (Some e, t3)
               | (Inr b, t3) \<Rightarrow> (None, t3)))"

definition connect :: "host \<Rightarrow> runtime \<Rightarrow> transport \<Rightarrow> js_error option \<times> transport" where
  "connect h rt t =
     (let t1 = t\<lparr>retries := retries t + 1\<rparr>;
          r = (if reconnectMaxRetries t \<le> enat (retries t)
               then (case emit (EvReconnectMaxRetries (reconnectMaxRetries t1)) t1 of
                       (Inl e, t2) \<Rightarrow> (Some e, t2)
                     | (Inr b, t2) \<Rightarrow> (None, t2))
               else (None, t1))
      in case r of
           (Some e, t2) \<Rightarrow> (Some e, t2)
         | (None, t2) \<Rightarrow>
             (let t3 = socket_call (Construct (buildAddress rt t2) (token t2)) t2
              in case WebSocket_new h (buildAddress rt t2) (token t2) of
                   Some err \<Rightarrow>
                     (case onClose (AErr err) (AVal JUndefined) t3 of
                        (Some e, t4) \<Rightarrow> (Some e, t4)
                      | (None, t4) \<Rightarrow> (Some err, t4))
                 | None \<Rightarrow>
                     (let i = next_socket t3;
                          t4 = t3\<lparr>socket := Some (i, CONNECTING), next_socket := Suc i\<rparr>
                      in (None, socket_call (Handlers i) t4))))"

definition close :: "transport \<Rightarrow> js_error option \<times> transport" where
  "close t =
     (let t1 = t\<lparr>shouldClose := True\<rparr>
      in case socket t1 of
           None \<Rightarrow> (Some (TypeError (CannotRead JNull ''close'')), t1)
         | Some (i, r) \<Rightarrow> (None, (socket_call (CloseSocket i) t1)\<lparr>socket := None\<rparr>))"

definition parseData :: "host \<Rightarrow> string \<Rightarrow> transport \<Rightarrow> (js_error + jsval) \<times> transport" where
  "parseData h data t =
     (case JSON_parse h data of
        Inr v \<Rightarrow> (Inr v, t)
      | Inl err \<Rightarrow>
          (case emit (EvError err) t of
             (Inl e, t') \<Rightarrow> (Inl e, t')
           | (Inr b, t') \<Rightarrow> (Inr (JBool b), t')))"

definition ping :: "transport \<Rightarrow> transport" where
  "ping t =
     (if isReady t then
        (case socket t of
           None \<Rightarrow> t
         | Some (i, r) \<Rightarrow>
             (let t1 = socket_call (SendPing i ''Hi?'') t;
                  (h, t2) = setTimeout CbPongTimeout (pingTimeout t1) t1
              in t2\<lparr>awaitPong := Some h\<rparr>))
      else t)"

text \<open>The callback armed by \<open>ping\<close>.\<close>

definition pong_timeout :: "transport \<Rightarrow> js_error option \<times> transport" where
  "pong_timeout t =
     (case emit EvPongTimeout t of
        (Inl e, t1) \<Rightarrow> (Some e, t1)
      | (Inr b, t1) \<Rightarrow>
          (case socket t1 of
             None \<Rightarrow> (Some (TypeError (CannotRead JNull ''terminate'')), t1)
           | Some (i, r) \<Rightarrow> (None, socket_call (Terminate i) t1)))"

definition onOpen :: "jsval \<Rightarrow> transport \<Rightarrow> js_error option \<times> transport" where
  "onOpen data t =
     (let t1 = t\<lparr>retries := 0\<rparr>
      in case emit (EvOpen data) t1 of
           (Inl e, t2) \<Rightarrow> (Some e, t2)
         | (Inr b, t2) \<Rightarrow> (None, ping t2))"

definition onPing :: "transport \<Rightarrow> transport" where
  "onPing t =
     (if isReady t then
        (case socket t of
           None \<Rightarrow> t
         | Some (i, r) \<Rightarrow> socket_call (SendPong i ''Hi!'') t)
      else t)"

definition onPong :: "transport \<Rightarrow> js_error option \<times> transport" where
  "onPong t =
     (let t1 = (case awaitPong t of Some h \<Rightarrow> clearTimeout h t | None \<Rightarrow> t);
          (h, t2) = setTimeout CbPing (pingInterval t1) t1;
          t3 = t2\<lparr>pinger := Some h\<rparr>
      in case emit EvPong t3 of
           (Inl e, t4) \<Rightarrow> (Some e, t4)
         | (Inr b, t4) \<Rightarrow> (None, t4))"

text \<open>The loop of \<open>onPlaying\<close> over the session states of a notification.\<close>

fun onPlaying_forEach ::
  "runtime \<Rightarrow> jsval list \<Rightarrow> transport \<Rightarrow> js_error option \<times> transport"
where
  "onPlaying_forEach rt [] t = (None, t)"
| "onPlaying_forEach rt (playingNotif # rest) t =
     (case get_prop rt playingNotif ''state'' of
        Inl e \<Rightarrow> (Some e, t)
      | Inr st \<Rightarrow>
          (case emit (EvPlaying st playingNotif) t of
             (Inl e, t1) \<Rightarrow> (Some e, t1)
           | (Inr b, t1) \<Rightarrow> onPlaying_forEach rt rest t1))"

definition onPlaying :: "runtime \<Rightarrow> jsval \<Rightarrow> transport \<Rightarrow> js_error option \<times> transport" where
  "onPlaying rt notif t =
     (case get_prop rt notif ''PlaySessionStateNotification'' of
        Inl e \<Rightarrow> (Some e, t)
      | Inr payload \<Rightarrow>
          if truthy payload
             \<and> (case get_prop rt payload ''length'' of Inl e \<Rightarrow> False | Inr n \<Rightarrow> truthy n)
          then (case payload of
                  JArr xs \<Rightarrow> onPlaying_forEach rt xs t
                | _ \<Rightarrow> (Some (TypeError (NotAFunction ''payload.forEach'')), t))
          else (case emit (EvError
                   (Error ''expected playing notification to have PlaySessionStateNotification'')) t of
                  (Inl e, t1) \<Rightarrow> (Some e, t1)
                | (Inr b, t1) \<Rightarrow> (None, t1)))"

definition onNotification ::
  "runtime \<Rightarrow> jsval \<Rightarrow> transport \<Rightarrow> js_error option \<times> transport"
where
  "onNotification rt notif t =
     (case emit (EvNotification notif) t of
        (Inl e, t1) \<Rightarrow> (Some e, t1)
      | (Inr b, t1) \<Rightarrow>
          (case get_prop rt notif ''type'' of
             Inl e \<Rightarrow> (Some e, t1)
           | Inr ty \<Rightarrow>
               if strict_eq ty (JStr ''playing'') then onPlaying rt notif t1 else (None, t1)))"

text \<open>The function \<open>notification\<close>: \<^verbatim>\<open>!!payload && payload['NotificationContainer']\<close>.\<close>

definition notification :: "runtime \<Rightarrow> jsval \<Rightarrow> js_error + jsval" where
  "notification rt payload =
     (if truthy payload then get_prop rt payload ''NotificationContainer''
      else Inr (JBool False))"

definition onMessage ::
  "host \<Rightarrow> runtime \<Rightarrow> string \<Rightarrow> transport \<Rightarrow> js_error option \<times> transport"
where
  "onMessage h rt data t =
     (case parseData h data t of
        (Inl e, t1) \<Rightarrow> (Some e, t1)
      | (Inr payload, t1) \<Rightarrow>
          if truthy payload then
            (case emit (EvMessage payload) t1 of
               (Inl e, t2) \<Rightarrow> (Some e, t2)
             | (Inr b, t2) \<Rightarrow>
                 (case notification rt payload of
                    Inl e \<Rightarrow> (Some e, t2)
                  | Inr notif \<Rightarrow>
                      if truthy notif then onNotification rt notif t2 else (None, t2)))
          else (None, t1))"

definition onUnexpectedResponse ::
  "runtime \<Rightarrow> jsval \<Rightarrow> jsval \<Rightarrow> transport \<Rightarrow> js_error option \<times> transport"
where
  "onUnexpectedResponse rt req res t =
     (if truthy res \<and> (case get_prop rt res ''statusCode'' of
                          Inl e \<Rightarrow> False
                        | Inr c \<Rightarrow> loose_eq rt c (JNum (Fin 401)))
      then (case emit EvUnauthorized t of (Inl e, t1) \<Rightarrow> (Some e, t1) | (Inr b, t1) \<Rightarrow> (None, t1))
      else (case emit (EvUnexpectedResponse req res) t of
              (Inl e, t1) \<Rightarrow> (Some e, t1)
            | (Inr b, t1) \<Rightarrow> (None, t1)))"

definition onError :: "js_error \<Rightarrow> transport \<Rightarrow> js_error option \<times> transport" where
  "onError err t =
     (case emit (EvError err) t of (Inl e, t1) \<Rightarrow> (Some e, t1) | (Inr b, t1) \<Rightarrow> (None, t1))"

text \<open>The constructor.\<close>

definition PlexSocket :: "host \<Rightarrow> runtime \<Rightarrow> options \<Rightarrow> js_error option \<times> transport" where
  "PlexSocket h rt opts =
     (let t = \<lparr>hostname = opt_hostname opts, port = opt_port opts, token = opt_token opts,
               secure = opt_secure opts, pingInterval = opt_pingInterval opts,
               pingTimeout = opt_pingTimeout opts, reconnectInterval = opt_reconnectInterval opts,
               reconnectMaxRetries = opt_reconnectMaxRetries opts,
               autoConnect = opt_autoConnect opts,
               shouldClose = False, retries = 0, socket = None, pinger = None, awaitPong = None,
               listeners = [], emitted = [], timers = [], timer_log = [], next_timer = 0,
               socket_log = [], next_socket = 0\<rparr>
      in if autoConnect t then connect h rt t else (None, t))"

subsection \<open>Runs\<close>

text \<open>
  What happens to a transport: calls of its public methods, events of the socket whose
  handlers \<open>connect\<close> registers, a pending timer firing, and the socket library
  changing the \<open>readyState\<close> of the current socket.
\<close>

datatype input =
    CallConnect
  | CallClose
  | AddListener event_name
  | SockOpen jsval
  | SockPing
  | SockPong
  | SockMessage string
  | SockError js_error
  | SockUnexpectedResponse jsval jsval
  | SockClose jsval jsval
  | TimerFires nat
  | ReadyState ready_state

text \<open>A timer that fires is no longer pending; then its callback runs.\<close>

definition fire :: "host \<Rightarrow> runtime \<Rightarrow> nat \<Rightarrow> transport \<Rightarrow> js_error option \<times> transport" where
  "fire h rt i t =
     (case find (\<lambda>x. fst x = i) (timers t) of
        None \<Rightarrow> (None, t)
      | Some (j, cb, d) \<Rightarrow>
          (let t1 = t\<lparr>timers := filter (\<lambda>x. fst x \<noteq> i) (timers t)\<rparr>
           in case cb of
                CbPing \<Rightarrow> (None, ping t1)
              | CbPongTimeout \<Rightarrow> pong_timeout t1
              | CbReconnect \<Rightarrow> connect h rt t1))"

fun step :: "host \<Rightarrow> runtime \<Rightarrow> input \<Rightarrow> transport \<Rightarrow> js_error option \<times> transport" where
  "step h rt CallConnect t = connect h rt t"
| "step h rt CallClose t = close t"
| "step h rt (AddListener n) t = (None, t\<lparr>listeners := listeners t @ [n]\<rparr>)"
| "step h rt (SockOpen d) t = onOpen d t"
| "step h rt SockPing t = (None, onPing t)"
| "step h rt SockPong t = onPong t"
| "step h rt (SockMessage d) t = onMessage h rt d t"
| "step h rt (SockError e) t = onError e t"
| "step h rt (SockUnexpectedResponse req res) t = onUnexpectedResponse rt req res t"
| "step h rt (SockClose c r) t = onClose (AVal c) (AVal r) t"
| "step h rt (TimerFires i) t = fire h rt i t"
| "step h rt (ReadyState r) t =
     (None, case socket t of None \<Rightarrow> t | Some (i, r0) \<Rightarrow> t\<lparr>socket := Some (i, r)\<rparr>)"

text \<open>
  A run: an error thrown by a step goes to the caller of the handler, and the transport
  stays as the throw left it.
\<close>

fun run :: "host \<Rightarrow> runtime \<Rightarrow> input list \<Rightarrow> transport \<Rightarrow> transport" where
  "run h rt [] t = t"
| "run h rt (i # ins) t = run h rt ins (snd (step h rt i t))"

text \<open>The delays and callbacks handed to \<open>setTimeout\<close>, in the order of the calls.\<close>

fun scheduled :: "timer_op list \<Rightarrow> (timer_callback \<times> nat) list" where
  "scheduled [] = []"
| "scheduled (SetTimeout i cb d # ops) = (cb, d) # scheduled ops"
| "scheduled (ClearTimeout i # ops) = scheduled ops"

text \<open>
  The pending heartbeat timers: the ping timer (\<open>pinger\<close>) and the pong-timeout timer
  (\<open>awaitPong\<close>).
\<close>

definition heartbeat :: "transport \<Rightarrow> (nat \<times> timer_callback \<times> nat) list" where
  "heartbeat t = filter (\<lambda>x. fst (snd x) \<noteq> CbReconnect) (timers t)"





section \<open>Example inputs\<close>

text \<open>
  A runtime for the examples. It is exact on the natural numbers and their decimal
  numerals, and the examples hold no other numbers. Of the built-in prototypes it knows
  \<open>Object.prototype\<close>, which the plain objects inherit from, and the examples read no
  inherited member of any other value. Its messages are those of V8.
\<close>

definition object_prototype :: "(string \<times> jsval) list" where
  "object_prototype =
     [(''constructor'', JBuiltin ''Object''),
      (''toString'', JBuiltin ''toString''),
      (''toLocaleString'', JBuiltin ''toLocaleString''),
      (''valueOf'', JBuiltin ''valueOf''),
      (''hasOwnProperty'', JBuiltin ''hasOwnProperty''),
      (''isPrototypeOf'', JBuiltin ''isPrototypeOf''),
      (''propertyIsEnumerable'', JBuiltin ''propertyIsEnumerable''),
      (''__defineGetter__'', JBuiltin ''__defineGetter__''),
      (''__defineSetter__'', JBuiltin ''__defineSetter__''),
      (''__lookupGetter__'', JBuiltin ''__lookupGetter__''),
      (''__lookupSetter__'', JBuiltin ''__lookupSetter__''),
      (''__proto__'', JBuiltin ''Object.prototype'')]"

function show_nat :: "nat \<Rightarrow> string" where
  "show_nat n =
     (if n < 10 then [char_of (48 + n)]
      else show_nat (n div 10) @ [char_of (48 + n mod 10)])"
  by pat_completeness auto
termination
  by (relation "measure id") auto

definition js_String_nullish :: "jsval \<Rightarrow> string" where
  "js_String_nullish v = (if v = JNull then ''null'' else ''undefined'')"

definition example_runtime :: runtime where
  "example_runtime =
     \<lparr>str_to_num = (\<lambda>s. if s = [] then Fin 0
                         else if list_all is_digit s
                         then Fin (of_nat (fold (\<lambda>c n. 10 * n + (of_char c - 48)) s 0))
                         else NaN),
      num_to_str = (\<lambda>n. case n of
                           NaN \<Rightarrow> ''NaN''
                         | NegInf \<Rightarrow> ''-Infinity''
                         | PosInf \<Rightarrow> ''Infinity''
                         | Fin q \<Rightarrow> if 0 \<le> q then show_nat (nat \<lfloor>q\<rfloor>)
                                    else CHR ''-'' # show_nat (nat \<lfloor>- q\<rfloor>)),
      inherited = (\<lambda>v k. case v of
                           JObj fs \<Rightarrow>
                             (case map_of object_prototype k of
                                Some m \<Rightarrow> m
                              | None \<Rightarrow> JUndefined)
                         | _ \<Rightarrow> JUndefined),
      builtin_to_str = (\<lambda>n. if n = ''Object.prototype'' then ''[object Object]''
                             else ''function '' @ n @ ''() { [native code] }''),
      type_error_text = (\<lambda>e. case e of
                                CannotRead v k \<Rightarrow>
                                  ''Cannot read properties of '' @ js_String_nullish v
                                    @ '' (reading '' @ [CHR 0x27] @ k @ [CHR 0x27] @ '')''
                              | NotAFunction n \<Rightarrow> n @ '' is not a function'')\<rparr>"

text \<open>
  A host for the examples: its parser knows the empty object and rejects every other
  frame; its socket constructor succeeds.
\<close>

definition example_host :: host where
  "example_host =
     \<lparr>JSON_parse = (\<lambda>s. if s = ''{}'' then Inr (JObj [])
                         else Inl (SyntaxError ''Unexpected token in JSON'')),
      WebSocket_new = (\<lambda>address protocol. None)\<rparr>"

text \<open>The constructor's defaults, for a server \<open>plex.local\<close> with its port as the
  configuration form gives it, a string.\<close>

definition example_options :: options where
  "example_options =
     \<lparr>opt_hostname = JStr ''plex.local'', opt_port = JStr ''32400'',
      opt_token = JStr ''secret'', opt_secure = JBool False, opt_pingInterval = 10000,
      opt_pingTimeout = 5000, opt_reconnectInterval = 10000,
      opt_reconnectMaxRetries = \<infinity>, opt_autoConnect = True\<rparr>"

text \<open>
  The filter of the specification's scenarios, on \<open>Player.state\<close>, and a filter on a
  field that only transcoded sessions have.
\<close>

definition state_filter :: filter_spec where
  "state_filter =
     \<lparr>key = ''Player.state'', fvalue = JStr ''playing'', valueType = VStr, operator = OpEq,
      idx = 0\<rparr>"

definition transcode_filter :: filter_spec where
  "transcode_filter =
     \<lparr>key = ''TranscodeSession.videoDecision'', fvalue = JStr ''transcode'', valueType = VStr,
      operator = OpEq, idx = 1\<rparr>"

definition bitrate_filter :: filter_spec where
  "bitrate_filter =
     \<lparr>key = ''Media.bitrate'', fvalue = JStr ''4000'', valueType = VNum, operator = OpLt,
      idx = 2\<rparr>"

text \<open>A session played directly (no \<open>TranscodeSession\<close>), last seen paused.\<close>

definition example_session :: "(string \<times> jsval) list" where
  "example_session =
     [(''sessionKey'', JStr ''7''),
      (''Player'', JObj [(''state'', JStr ''playing''), (''title'', JStr ''TV'')]),
      (''Media'', JObj [(''container'', JStr ''mkv'')]),
      (''prevState'', JStr ''paused'')]"

definition example_store :: sessions where
  "example_store = \<lparr>cache = Map.empty(JStr ''7'' \<mapsto> example_session), delete_calls = []\<rparr>"

definition example_world :: node_world where
  "example_world = \<lparr>store = example_store, sent = [], warnings = [], console = []\<rparr>"

definition example_notification :: "jsval \<Rightarrow> jsval" where
  "example_notification state = JObj [(''sessionKey'', JStr ''7''), (''state'', state)]"

section \<open>Properties of the filter engine\<close>

lemma set_insert_by: "set (insert_by cmp x xs) = insert x (set xs)"
  by (induction xs) auto

lemma mset_insert_by: "mset (insert_by cmp x xs) = add_mset x (mset xs)"
  by (induction xs) auto

lemma sorted_insert_by:
  "sorted (map idx xs) \<Longrightarrow> sorted (map idx (insert_by cmp_idx x xs))"
  by (induction xs) (auto simp: cmp_idx_def set_insert_by split: if_splits)

lemma sorted_js_sort: "sorted (map idx (js_sort cmp_idx xs))"
  unfolding js_sort_def by (induction xs) (simp_all add: sorted_insert_by)

lemma mset_js_sort: "mset (js_sort cmp xs) = mset xs"
  unfolding js_sort_def by (induction xs) (simp_all add: mset_insert_by)

subsection \<open>Where every key path resolves\<close>

text \<open>
  When the key path of every filter resolves in the session, \<open>matchesFilters\<close> returns
  the conjunction of the comparisons; with no filter it returns true; and the
  constructor leaves the configured filters in ascending order of \<open>idx\<close>, none lost or
  added.
\<close>

lemma matchesFilters_loop_resolved:
  assumes "\<And>f. f \<in> set fs \<Longrightarrow> resolve_path rt s (split_dot (key f)) = Inr (val f)"
  shows "snd (matchesFilters_loop rt fs s m out) =
    Inr (m \<and> (\<forall>f\<in>set fs. apply_operator rt (operator f)
                  (coerce rt (valueType f) (fvalue f)) (coerce rt (valueType f) (val f))))"
  using assms by (induction fs arbitrary: m out) (auto simp: Let_def)

lemma matchesFilters_resolved:
  assumes "\<And>f. f \<in> set (filters node) \<Longrightarrow> resolve_path rt s (split_dot (key f)) = Inr (val f)"
  shows "snd (matchesFilters rt node s) =
    Inr (\<forall>f\<in>set (filters node). apply_operator rt (operator f)
            (coerce rt (valueType f) (fvalue f)) (coerce rt (valueType f) (val f)))"
  using matchesFilters_loop_resolved [OF assms, of "filters node" True "[]"]
  by (simp add: matchesFilters_def)

lemma matchesFilters_no_filter: "matchesFilters rt (node\<lparr>filters := []\<rparr>) s = ([], Inr True)"
  by (simp add: matchesFilters_def)

lemma PlayingNode_sorted:
  "sorted (map idx (filters (PlayingNode config_filters)))
   \<and> mset (filters (PlayingNode config_filters)) =
       mset (case config_filters of None \<Rightarrow> [] | Some fs \<Rightarrow> fs)"
  by (simp add: PlayingNode_def sorted_js_sort mset_js_sort)

subsection \<open>The operators\<close>

text \<open>
  The first operand is the filter's literal and the second the session's value: on two
  numbers the operators are the comparisons of the numbers, on two strings those of the
  lexicographic order of the code units, on two booleans those of \<open>false < true\<close>.
\<close>

lemma apply_operator_numbers:
  "apply_operator rt opr (JNum (Fin a)) (JNum (Fin b)) =
     (case opr of
        OpEq \<Rightarrow> a = b | OpNeq \<Rightarrow> a \<noteq> b
      | OpLt \<Rightarrow> a < b | OpLte \<Rightarrow> a \<le> b
      | OpGt \<Rightarrow> b < a | OpGte \<Rightarrow> b \<le> a)"
  by (cases opr) (auto simp: loose_eq_def js_lt_def to_primitive_def num_eq_def)

lemma str_lt_lexord:
  "str_lt x y = ((x, y) \<in> lexord {(c, d). (of_char c :: nat) < of_char d})"
  by (induction x y rule: str_lt.induct) auto

lemma apply_operator_strings:
  "apply_operator rt opr (JStr x) (JStr y) =
     (case opr of
        OpEq \<Rightarrow> x = y | OpNeq \<Rightarrow> x \<noteq> y
      | OpLt \<Rightarrow> str_lt x y | OpLte \<Rightarrow> \<not> str_lt y x
      | OpGt \<Rightarrow> str_lt y x | OpGte \<Rightarrow> \<not> str_lt x y)"
  by (cases opr) (auto simp: loose_eq_def js_lt_def to_primitive_def)

lemma apply_operator_booleans:
  "apply_operator rt opr (JBool a) (JBool b) =
     (case opr of
        OpEq \<Rightarrow> a = b | OpNeq \<Rightarrow> a \<noteq> b
      | OpLt \<Rightarrow> \<not> a \<and> b | OpLte \<Rightarrow> \<not> (\<not> b \<and> a)
      | OpGt \<Rightarrow> \<not> b \<and> a | OpGte \<Rightarrow> \<not> (\<not> a \<and> b))"
  by (cases opr; cases a; cases b)
     (simp_all add: loose_eq_def js_lt_def to_primitive_def num_eq_def)

subsection \<open>A key path that does not resolve\<close>

lemma example_inherited:
  "inherited example_runtime (JObj fs) k =
     (case map_of object_prototype k of Some m \<Rightarrow> m | None \<Rightarrow> JUndefined)"
  by (simp add: example_runtime_def)

text \<open>
  The session is played directly and has no \<open>TranscodeSession\<close>: resolving the key
  \<open>TranscodeSession.videoDecision\<close> reads a property of \<open>undefined\<close>.
\<close>

lemma transcode_filter_throws:
  "matchesFilters example_runtime (PlayingNode (Some [state_filter, transcode_filter]))
      (JObj example_session) =
     ([''evaluate playing eq playing''],
      Inl (TypeError (CannotRead JUndefined ''videoDecision'')))"
  by (simp add: matchesFilters_def PlayingNode_def js_sort_def state_filter_def
      transcode_filter_def cmp_idx_def example_session_def loose_eq_def to_primitive_def Let_def
      example_inherited object_prototype_def)

text \<open>
  C3 fails on the code. For the session played directly and the filters on
  \<open>Player.state\<close> and on \<open>TranscodeSession.videoDecision\<close>, the key \<open>TranscodeSession\<close>
  resolves to \<open>undefined\<close>, the next step of the path reads a property of it, and
  \<open>matchesFilters\<close> throws a \<open>TypeError\<close>: it returns no conjunction.
\<close>

theorem matchesFilters_throws_on_missing_field:
  "resolve_path example_runtime (JObj example_session) [''TranscodeSession''] = Inr JUndefined
   \<and> snd (matchesFilters example_runtime (PlayingNode (Some [state_filter, transcode_filter]))
        (JObj example_session)) = Inl (TypeError (CannotRead JUndefined ''videoDecision''))"
  by (simp add: transcode_filter_throws)
     (simp add: example_session_def example_inherited object_prototype_def)

subsection \<open>Numeric filters and values that are not numbers\<close>

lemma num_eq_NaN: "\<not> num_eq a NaN"
  by (simp add: num_eq_def)

lemma num_lt_NaN_right: "num_lt a NaN = None"
  by (cases a) simp_all

text \<open>
  C6. For a filter of value type \<open>num\<close> whose key path resolves in the session to a
  value that \<open>Number\<close> turns into \<open>NaN\<close>, the comparison is true for \<open>neq\<close> and false
  for \<open>eq\<close>, \<open>lt\<close>, \<open>lte\<close>, \<open>gt\<close> and \<open>gte\<close>, whatever the filter's literal is; so is
  the result of \<open>matchesFilters\<close> for that filter alone.
\<close>

theorem num_filter_NaN:
  assumes "valueType f = VNum"
    and "resolve_path rt s (split_dot (key f)) = Inr v"
    and "js_Number rt v = NaN"
  shows "apply_operator rt (operator f)
           (coerce rt (valueType f) (fvalue f)) (coerce rt (valueType f) v) = (operator f = OpNeq)
    \<and> snd (matchesFilters rt \<lparr>filters = [f]\<rparr> s) = Inr (operator f = OpNeq)"
  using assms
  by (cases "operator f")
     (simp_all add: matchesFilters_def Let_def loose_eq_def js_lt_def
      to_primitive_def num_eq_NaN num_lt_NaN_right)

theorem num_filter_NaN_witness:
  "valueType bitrate_filter = VNum
   \<and> resolve_path example_runtime (JObj example_session) (split_dot (key bitrate_filter))
        = Inr JUndefined
   \<and> js_Number example_runtime JUndefined = NaN
   \<and> apply_operator example_runtime (operator bitrate_filter)
        (coerce example_runtime (valueType bitrate_filter) (fvalue bitrate_filter))
        (coerce example_runtime (valueType bitrate_filter) JUndefined) = False
   \<and> snd (matchesFilters example_runtime \<lparr>filters = [bitrate_filter]\<rparr> (JObj example_session))
        = Inr False"
  using num_filter_NaN [where f = bitrate_filter and s = "JObj example_session"
      and v = JUndefined and rt = example_runtime]
  by (simp add: bitrate_filter_def example_session_def example_inherited object_prototype_def)

section \<open>Properties of the playing listener\<close>

subsection \<open>The example inputs\<close>

lemma example_session_prevState:
  "get_prop example_runtime (JObj example_session) ''prevState'' = Inr (JStr ''paused'')"
  by (simp add: example_session_def)

lemma example_fetch:
  "get_prop example_runtime (example_notification state) ''sessionKey'' = Inr (JStr ''7'')"
  "sessions_fetch (store example_world) (JStr ''7'') Resolved = Inr (JObj example_session)"
  by (simp_all add: example_notification_def sessions_fetch_def example_world_def
      example_store_def)

lemma example_no_deletes: "delete_calls (store example_world) = []"
  by (simp add: example_world_def example_store_def)

lemma state_filter_matches:
  "snd (matchesFilters example_runtime (PlayingNode (Some [state_filter])) (JObj example_session))
     = Inr True"
  by (simp add: matchesFilters_def PlayingNode_def js_sort_def state_filter_def
      example_session_def loose_eq_def to_primitive_def Let_def)

subsection \<open>Deduplication\<close>

text \<open>
  C4. When the fetch resolves to a session whose \<open>prevState\<close> is identical (\<open>===\<close>) to
  the state of the event, the listener sends no message downstream, whatever the
  filters are.
\<close>

theorem unchanged_state_sends_nothing:
  assumes "get_prop rt notif ''sessionKey'' = Inr k"
    and "sessions_fetch (store w) k outcome = Inr sess"
    and "get_prop rt sess ''prevState'' = Inr prev"
    and "strict_eq prev state"
  shows "sent (snd (playing_listener rt node state notif outcome w)) = sent w"
  using assms
  by (simp add: playing_listener_def then_callback_def Let_def warn_def)

theorem unchanged_state_sends_nothing_witness:
  "get_prop example_runtime (example_notification (JStr ''paused'')) ''sessionKey'' = Inr (JStr ''7'')
   \<and> sessions_fetch (store example_world) (JStr ''7'') Resolved = Inr (JObj example_session)
   \<and> get_prop example_runtime (JObj example_session) ''prevState'' = Inr (JStr ''paused'')
   \<and> strict_eq (JStr ''paused'') (JStr ''paused'')
   \<and> snd (matchesFilters example_runtime (PlayingNode (Some [state_filter]))
        (JObj example_session)) = Inr True
   \<and> sent (snd (playing_listener example_runtime (PlayingNode (Some [state_filter]))
        (JStr ''paused'') (example_notification (JStr ''paused'')) Resolved example_world)) = []"
proof -
  have d: "strict_eq (JStr ''paused'') (JStr ''paused'')"
    by simp
  have e: "sent example_world = []"
    by (simp add: example_world_def)
  from unchanged_state_sends_nothing
    [OF example_fetch(1) example_fetch(2) example_session_prevState d,
      where node = "PlayingNode (Some [state_filter])"]
  show ?thesis
    using example_fetch example_session_prevState state_filter_matches e by simp
qed

subsection \<open>Deletion of stopped sessions\<close>

text \<open>
  C5, as the code has it. When the state of the event is \<open>stopped\<close>, the fetch resolves,
  and the filters, where they are evaluated (the session exists and its \<open>prevState\<close> is
  not \<open>stopped\<close>), are evaluated without a \<open>TypeError\<close>, then \<open>delete(sessionKey)\<close> is
  called and the store holds no session for the key afterwards, whether or not the
  filters matched.
\<close>

theorem stopped_session_deleted:
  assumes "get_prop rt notif ''sessionKey'' = Inr k"
    and "sessions_fetch (store w) k outcome = Inr sess"
    and "\<And>prev. truthy sess \<Longrightarrow> get_prop rt sess ''prevState'' = Inr prev \<Longrightarrow>
           \<not> strict_eq prev (JStr ''stopped'') \<Longrightarrow>
           \<exists>b. snd (matchesFilters rt node sess) = Inr b"
  shows "cache (store (snd (playing_listener rt node (JStr ''stopped'') notif outcome w))) k = None
    \<and> delete_calls (store (snd (playing_listener rt node (JStr ''stopped'') notif outcome w))) =
        delete_calls (store w) @ [k]"
proof -
  from assms(2) have s: "sess = JNull \<or> (\<exists>fs. sess = JObj fs)"
    by (auto simp: sessions_fetch_def split: fetch_outcome.splits option.splits)
  show ?thesis
  proof (cases "truthy sess")
    case False
    with assms(1,2) show ?thesis
      by (simp add: playing_listener_def then_callback_def Let_def sessions_delete_def)
  next
    case True
    with s obtain fs where fs: "sess = JObj fs"
      by auto
    obtain prev where prev: "get_prop rt sess ''prevState'' = Inr prev"
      using fs by (cases "map_of fs ''prevState''") auto
    show ?thesis
    proof (cases "strict_eq prev (JStr ''stopped'')")
      case True
      with assms(1,2) prev fs show ?thesis
        by (simp add: playing_listener_def then_callback_def Let_def sessions_delete_def)
    next
      case False
      with assms(3) [OF \<open>truthy sess\<close> prev]
      obtain b where b: "snd (matchesFilters rt node sess) = Inr b"
        by auto
      then obtain out where "matchesFilters rt node sess = (out, Inr b)"
        by (cases "matchesFilters rt node sess") auto
      with assms(1,2) prev fs False show ?thesis
        by (simp add: playing_listener_def then_callback_def Let_def sessions_delete_def)
    qed
  qed
qed

theorem stopped_session_deleted_witness:
  "get_prop example_runtime (example_notification (JStr ''stopped'')) ''sessionKey'' = Inr (JStr ''7'')
   \<and> sessions_fetch (store example_world) (JStr ''7'') Resolved = Inr (JObj example_session)
   \<and> snd (matchesFilters example_runtime (PlayingNode (Some [state_filter]))
        (JObj example_session)) = Inr True
   \<and> cache (store (snd (playing_listener example_runtime (PlayingNode (Some [state_filter]))
        (JStr ''stopped'') (example_notification (JStr ''stopped'')) Resolved example_world)))
        (JStr ''7'') = None
   \<and> delete_calls (store (snd (playing_listener example_runtime
        (PlayingNode (Some [state_filter])) (JStr ''stopped'')
        (example_notification (JStr ''stopped'')) Resolved example_world))) = [JStr ''7'']"
proof -
  have "\<exists>b. snd (matchesFilters example_runtime (PlayingNode (Some [state_filter]))
      (JObj example_session)) = Inr b"
    using state_filter_matches by blast
  from stopped_session_deleted [OF example_fetch(1) example_fetch(2) this]
  show ?thesis
    using example_fetch state_filter_matches example_no_deletes by simp
qed

text \<open>
  C5 as stated fails: when the fetch is rejected the listener only warns, and the
  session of a \<open>stopped\<close> event stays in the store.
\<close>

theorem rejected_fetch_keeps_session:
  "cache (store (snd (playing_listener example_runtime (PlayingNode (Some [state_filter]))
      (JStr ''stopped'') (example_notification (JStr ''stopped''))
      (Rejected (Error ''connect ECONNREFUSED'')) example_world))) (JStr ''7'')
     = Some example_session
   \<and> delete_calls (store (snd (playing_listener example_runtime
      (PlayingNode (Some [state_filter])) (JStr ''stopped'')
      (example_notification (JStr ''stopped''))
      (Rejected (Error ''connect ECONNREFUSED'')) example_world))) = []"
  by (simp add: playing_listener_def example_notification_def sessions_fetch_def warn_def
      example_world_def example_store_def)

text \<open>
  C10 fails on the code. The fetch resolves to the session, the second filter throws a
  \<open>TypeError\<close> inside the callback of \<open>then\<close>, the handler of \<open>catch\<close> warns, and
  \<open>delete\<close> is never called: the session of the \<open>stopped\<close> event stays in the store.
\<close>

theorem delete_skipped_after_TypeError:
  "delete_calls (store (snd (playing_listener example_runtime
      (PlayingNode (Some [state_filter, transcode_filter]))
      (JStr ''stopped'') (example_notification (JStr ''stopped'')) Resolved example_world))) = []
   \<and> cache (store (snd (playing_listener example_runtime
      (PlayingNode (Some [state_filter, transcode_filter]))
      (JStr ''stopped'') (example_notification (JStr ''stopped'')) Resolved example_world)))
      (JStr ''7'') = Some example_session"
  by (simp add: playing_listener_def then_callback_def transcode_filter_throws example_fetch
      example_session_prevState warn_def Let_def del: get_prop.simps)
     (simp add: example_world_def example_store_def)

subsection \<open>The update of \<open>prevState\<close>\<close>

lemma map_of_set_field: "map_of (set_field fs k v) k = Some v"
  by (induction fs) auto

text \<open>
  Where the filters are evaluated without error (and the state is not \<open>stopped\<close>, so
  that the session stays in the store), a state that differs from \<open>prevState\<close> is
  written to \<open>prevState\<close>, whether or not the filters matched.
\<close>

lemma prevState_updated_when_filters_complete:
  assumes "get_prop rt notif ''sessionKey'' = Inr k"
    and "sessions_fetch (store w) k outcome = Inr (JObj fs)"
    and "get_prop rt (JObj fs) ''prevState'' = Inr prev"
    and "\<not> strict_eq prev state"
    and "snd (matchesFilters rt node (JObj fs)) = Inr b"
    and "state \<noteq> JStr ''stopped''"
  shows "\<exists>fs'. cache (store (snd (playing_listener rt node state notif outcome w))) k = Some fs'
           \<and> get_prop rt (JObj fs') ''prevState'' = Inr state"
proof -
  obtain out where "matchesFilters rt node (JObj fs) = (out, Inr b)"
    using assms(5) by (cases "matchesFilters rt node (JObj fs)") auto
  moreover have "\<not> strict_eq state (JStr ''stopped'')"
    using assms(6) by (cases state) auto
  ultimately show ?thesis
    using assms(1-4)
    by (simp add: playing_listener_def then_callback_def Let_def map_of_set_field)
qed

text \<open>
  C9 fails on the code. The session exists and its \<open>prevState\<close> (\<open>paused\<close>) differs from
  the state of the event (\<open>playing\<close>), but the second filter throws a \<open>TypeError\<close>
  before the assignment: \<open>prevState\<close> is still \<open>paused\<close> afterwards, and the listener
  warns that the fetch failed.
\<close>

theorem prevState_not_updated_after_TypeError:
  "cache (store (snd (playing_listener example_runtime
      (PlayingNode (Some [state_filter, transcode_filter]))
      (JStr ''playing'') (example_notification (JStr ''playing'')) Resolved example_world)))
      (JStr ''7'') = Some example_session
   \<and> get_prop example_runtime (JObj example_session) ''prevState'' = Inr (JStr ''paused'')
   \<and> warnings (snd (playing_listener example_runtime
      (PlayingNode (Some [state_filter, transcode_filter]))
      (JStr ''playing'') (example_notification (JStr ''playing'')) Resolved example_world))
     = [''failed to fetch session details from Plex: TypeError: Cannot read properties of undefined (reading 'videoDecision')'']"
  by (simp add: playing_listener_def then_callback_def transcode_filter_throws example_fetch
      example_session_prevState warn_def Let_def del: get_prop.simps)
     (simp add: example_world_def example_store_def example_runtime_def js_String_nullish_def)

section \<open>Properties of the transport\<close>

subsection \<open>Connecting\<close>

lemma scheduled_append: "scheduled (xs @ ys) = scheduled xs @ scheduled ys"
  by (induction xs rule: scheduled.induct) simp_all

text \<open>
  C7. Every call of \<open>connect\<close> adds one to the retry counter. When the counter, as the
  call finds it, has reached \<open>reconnectMaxRetries\<close>, the call emits
  \<open>reconnect-max-retries\<close>, and otherwise it does not; in both cases it goes on to call
  the socket constructor with the address and the token, and when the constructor
  returns, the new socket, in state \<open>CONNECTING\<close>, is the current one and the handlers
  are registered on it. When the constructor throws, the error is passed to the close
  handler and thrown again.
\<close>

theorem connect_counts_and_opens:
  "retries (snd (connect h rt t)) = retries t + 1
   \<and> emitted (snd (connect h rt t)) =
       emitted t
       @ (if reconnectMaxRetries t \<le> enat (retries t)
          then [EvReconnectMaxRetries (reconnectMaxRetries t)] else [])
       @ (case WebSocket_new h (buildAddress rt t) (token t) of
            None \<Rightarrow> []
          | Some err \<Rightarrow> if shouldClose t then [EvClose (AErr err) (AVal JUndefined)] else [])
   \<and> socket_log (snd (connect h rt t)) =
       socket_log t @ Construct (buildAddress rt t) (token t)
         # (case WebSocket_new h (buildAddress rt t) (token t) of
              None \<Rightarrow> [Handlers (next_socket t)]
            | Some err \<Rightarrow> [])
   \<and> socket (snd (connect h rt t)) =
       (case WebSocket_new h (buildAddress rt t) (token t) of
          None \<Rightarrow> Some (next_socket t, CONNECTING)
        | Some err \<Rightarrow> socket t)
   \<and> fst (connect h rt t) = WebSocket_new h (buildAddress rt t) (token t)"
  by (simp add: connect_def onClose_def emit_def setTimeout_def clearTimeout_def socket_call_def
      buildAddress_def Let_def split: option.splits)

subsection \<open>What each handler leaves alone\<close>

lemma snd_rethrow [simp]:
  "snd (case r of (None, t') \<Rightarrow> (x, t') | (Some e, t') \<Rightarrow> (y e, t')) = snd r"
  by (cases r; cases "fst r") auto

lemma emit_frame [simp]:
  "shouldClose (snd (emit ev t)) = shouldClose t"
  "reconnectInterval (snd (emit ev t)) = reconnectInterval t"
  "timers (snd (emit ev t)) = timers t"
  "pinger (snd (emit ev t)) = pinger t"
  "awaitPong (snd (emit ev t)) = awaitPong t"
  by (simp_all add: emit_def Let_def split: event.splits)

lemma onPlaying_forEach_frame [simp]:
  "shouldClose (snd (onPlaying_forEach rt xs t)) = shouldClose t"
  "reconnectInterval (snd (onPlaying_forEach rt xs t)) = reconnectInterval t"
  "timers (snd (onPlaying_forEach rt xs t)) = timers t"
  "pinger (snd (onPlaying_forEach rt xs t)) = pinger t"
  "awaitPong (snd (onPlaying_forEach rt xs t)) = awaitPong t"
  by (induction xs arbitrary: t; simp add: emit_def split: sum.splits)+

lemma onPlaying_frame [simp]:
  "shouldClose (snd (onPlaying rt n t)) = shouldClose t"
  "reconnectInterval (snd (onPlaying rt n t)) = reconnectInterval t"
  "timers (snd (onPlaying rt n t)) = timers t"
  "pinger (snd (onPlaying rt n t)) = pinger t"
  "awaitPong (snd (onPlaying rt n t)) = awaitPong t"
  by (simp_all add: onPlaying_def emit_def Let_def split: sum.splits jsval.splits)

lemma onNotification_frame [simp]:
  "shouldClose (snd (onNotification rt n t)) = shouldClose t"
  "reconnectInterval (snd (onNotification rt n t)) = reconnectInterval t"
  "timers (snd (onNotification rt n t)) = timers t"
  "pinger (snd (onNotification rt n t)) = pinger t"
  "awaitPong (snd (onNotification rt n t)) = awaitPong t"
  by (simp_all add: onNotification_def emit_def Let_def split: sum.splits)

lemma onMessage_frame [simp]:
  "shouldClose (snd (onMessage h rt d t)) = shouldClose t"
  "reconnectInterval (snd (onMessage h rt d t)) = reconnectInterval t"
  "timers (snd (onMessage h rt d t)) = timers t"
  "pinger (snd (onMessage h rt d t)) = pinger t"
  "awaitPong (snd (onMessage h rt d t)) = awaitPong t"
  by (simp_all add: onMessage_def parseData_def notification_def emit_def Let_def
      split: sum.splits)

lemma onError_frame [simp]:
  "shouldClose (snd (onError e t)) = shouldClose t"
  "reconnectInterval (snd (onError e t)) = reconnectInterval t"
  "timers (snd (onError e t)) = timers t"
  "pinger (snd (onError e t)) = pinger t"
  "awaitPong (snd (onError e t)) = awaitPong t"
  by (simp_all add: onError_def emit_def Let_def)

lemma onUnexpectedResponse_frame [simp]:
  "shouldClose (snd (onUnexpectedResponse rt req res t)) = shouldClose t"
  "reconnectInterval (snd (onUnexpectedResponse rt req res t)) = reconnectInterval t"
  "timers (snd (onUnexpectedResponse rt req res t)) = timers t"
  "pinger (snd (onUnexpectedResponse rt req res t)) = pinger t"
  "awaitPong (snd (onUnexpectedResponse rt req res t)) = awaitPong t"
  by (simp_all add: onUnexpectedResponse_def emit_def Let_def)

lemma onPing_frame [simp]:
  "shouldClose (onPing t) = shouldClose t"
  "reconnectInterval (onPing t) = reconnectInterval t"
  "timers (onPing t) = timers t"
  "pinger (onPing t) = pinger t"
  "awaitPong (onPing t) = awaitPong t"
  by (simp_all add: onPing_def socket_call_def split: option.splits)

lemma close_frame [simp]:
  "shouldClose (snd (close t)) = True"
  "reconnectInterval (snd (close t)) = reconnectInterval t"
  "timers (snd (close t)) = timers t"
  "pinger (snd (close t)) = pinger t"
  "awaitPong (snd (close t)) = awaitPong t"
  by (simp_all add: close_def socket_call_def Let_def split: option.splits)

lemma onClose_policy [simp]:
  "shouldClose (snd (onClose c r t)) = shouldClose t"
  "reconnectInterval (snd (onClose c r t)) = reconnectInterval t"
  by (simp_all add: onClose_def Let_def setTimeout_def clearTimeout_def emit_def
      split: option.splits)

lemma connect_policy [simp]:
  "shouldClose (snd (connect h rt t)) = shouldClose t"
  "reconnectInterval (snd (connect h rt t)) = reconnectInterval t"
  by (simp_all add: connect_def Let_def emit_def socket_call_def split: option.splits)

lemma ping_policy [simp]:
  "shouldClose (ping t) = shouldClose t"
  "reconnectInterval (ping t) = reconnectInterval t"
  by (simp_all add: ping_def Let_def setTimeout_def socket_call_def split: option.splits)

lemma pong_timeout_policy [simp]:
  "shouldClose (snd (pong_timeout t)) = shouldClose t"
  "reconnectInterval (snd (pong_timeout t)) = reconnectInterval t"
  by (simp_all add: pong_timeout_def emit_def Let_def socket_call_def split: option.splits)

lemma onOpen_policy [simp]:
  "shouldClose (snd (onOpen d t)) = shouldClose t"
  "reconnectInterval (snd (onOpen d t)) = reconnectInterval t"
  by (simp_all add: onOpen_def emit_def Let_def)

lemma onPong_policy [simp]:
  "shouldClose (snd (onPong t)) = shouldClose t"
  "reconnectInterval (snd (onPong t)) = reconnectInterval t"
  by (simp_all add: onPong_def emit_def setTimeout_def clearTimeout_def Let_def
      split: option.splits)

lemma fire_policy [simp]:
  "shouldClose (snd (fire h rt i t)) = shouldClose t"
  "reconnectInterval (snd (fire h rt i t)) = reconnectInterval t"
  by (simp_all add: fire_def Let_def split: option.splits timer_callback.splits)

lemma step_policy:
  "shouldClose (snd (step h rt i t)) = (shouldClose t \<or> i = CallClose)
   \<and> reconnectInterval (snd (step h rt i t)) = reconnectInterval t"
  by (cases i) (simp_all split: option.splits)

lemma run_policy:
  "shouldClose (run h rt ins t) = (shouldClose t \<or> CallClose \<in> set ins)
   \<and> reconnectInterval (run h rt ins t) = reconnectInterval t"
  by (induction ins arbitrary: t) (auto simp: step_policy)

lemma PlexSocket_policy:
  "shouldClose (snd (PlexSocket h rt opts)) = False
   \<and> reconnectInterval (snd (PlexSocket h rt opts)) = opt_reconnectInterval opts"
  by (simp add: PlexSocket_def Let_def)

subsection \<open>Reconnection\<close>

lemma onClose_scheduled:
  "scheduled (timer_log (snd (onClose c r t))) =
     scheduled (timer_log t) @ (if shouldClose t then [] else [(CbReconnect, reconnectInterval t)])"
  by (simp add: onClose_def Let_def setTimeout_def clearTimeout_def emit_def scheduled_append
      split: option.splits)

text \<open>
  C2. In the state any run leaves a transport in, \<open>shouldClose\<close> is set exactly when
  \<open>close\<close> has been called in the run; and the close handler then calls \<open>setTimeout\<close>
  not at all when \<open>close\<close> has been called, and otherwise exactly once, for a reconnect
  after the configured \<open>reconnectInterval\<close>.
\<close>

theorem close_schedules_reconnect:
  "shouldClose (run h rt ins (snd (PlexSocket h rt opts))) = (CallClose \<in> set ins)
   \<and> scheduled (timer_log (snd (onClose code reason (run h rt ins (snd (PlexSocket h rt opts)))))) =
       scheduled (timer_log (run h rt ins (snd (PlexSocket h rt opts))))
       @ (if CallClose \<in> set ins then [] else [(CbReconnect, opt_reconnectInterval opts)])"
  by (simp add: onClose_scheduled run_policy PlexSocket_policy)

subsection \<open>The heartbeat timers\<close>

lemma snd_emit_case [simp]:
  "snd (case r of (Inl e, t') \<Rightarrow> (x e, t') | (Inr b, t') \<Rightarrow> (y b, t')) = snd r"
  by (cases r; cases "fst r") auto

lemma snd_case_sum [simp]:
  "snd (case s of Inl e \<Rightarrow> (x e, t') | Inr b \<Rightarrow> (y b, t')) = t'"
  by (cases s) auto

lemma snd_case_option [simp]:
  "snd (case s of None \<Rightarrow> (x, t') | Some e \<Rightarrow> (y e, t')) = t'"
  by (cases s) auto


lemma setTimeout_fields [simp]:
  "fst (setTimeout cb d t) = next_timer t"
  "pinger (snd (setTimeout cb d t)) = pinger t"
  "awaitPong (snd (setTimeout cb d t)) = awaitPong t"
  "timers (snd (setTimeout cb d t)) = timers t @ [(next_timer t, cb, d)]"
  by (simp_all add: setTimeout_def)

lemma clearTimeout_fields [simp]:
  "pinger (clearTimeout h t) = pinger t"
  "awaitPong (clearTimeout h t) = awaitPong t"
  "shouldClose (clearTimeout h t) = shouldClose t"
  "reconnectInterval (clearTimeout h t) = reconnectInterval t"
  "pingInterval (clearTimeout h t) = pingInterval t"
  "timers (clearTimeout h t) = filter (\<lambda>x. fst x \<noteq> h) (timers t)"
  by (simp_all add: clearTimeout_def)

lemma socket_call_fields [simp]:
  "pinger (socket_call c t) = pinger t"
  "awaitPong (socket_call c t) = awaitPong t"
  "timers (socket_call c t) = timers t"
  "pingTimeout (socket_call c t) = pingTimeout t"
  "next_timer (socket_call c t) = next_timer t"
  by (simp_all add: socket_call_def)

lemma heartbeat_frame: "timers t' = timers t \<Longrightarrow> heartbeat t' = heartbeat t"
  by (simp add: heartbeat_def)





lemma heartbeat_update [simp]:
  "heartbeat (t\<lparr>retries := n\<rparr>) = heartbeat t"
  "heartbeat (t\<lparr>socket := s\<rparr>) = heartbeat t"
  "heartbeat (t\<lparr>next_socket := n\<rparr>) = heartbeat t"
  "heartbeat (t\<lparr>pinger := p\<rparr>) = heartbeat t"
  "heartbeat (t\<lparr>awaitPong := p\<rparr>) = heartbeat t"
  "heartbeat (t\<lparr>listeners := l\<rparr>) = heartbeat t"
  "heartbeat (t\<lparr>shouldClose := b\<rparr>) = heartbeat t"
  "heartbeat (t\<lparr>emitted := es\<rparr>) = heartbeat t"
  "heartbeat (socket_call c t) = heartbeat t"
  "heartbeat (snd (emit ev t)) = heartbeat t"
  by (simp_all add: heartbeat_def)










lemma pong_timeout_frame [simp]:
  "timers (snd (pong_timeout t)) = timers t"
  "pinger (snd (pong_timeout t)) = pinger t"
  "awaitPong (snd (pong_timeout t)) = awaitPong t"
  by (simp_all add: pong_timeout_def emit_def Let_def split: option.splits)










subsection \<open>The example transport\<close>

lemma example_transport:
  "PlexSocket example_host example_runtime example_options =
  (None, \<lparr>hostname = JStr ''plex.local'', port = JStr ''32400'',
    token = JStr ''secret'', secure = JBool False, pingInterval = 10000,
    pingTimeout = 5000, reconnectInterval = 10000, reconnectMaxRetries = \<infinity>,
    autoConnect = True, shouldClose = False, retries = 1,
    socket = Some (0, CONNECTING), pinger = None, awaitPong = None,
    listeners = [], emitted = [], timers = [], timer_log = [], next_timer = 0,
    socket_log =
      [Construct ''ws://plex.local:32400/:/websockets/notifications'' (JStr ''secret''),
       Handlers 0],
    next_socket = 1\<rparr>)"
  by (simp add: PlexSocket_def example_options_def example_host_def connect_def Let_def
      socket_call_def buildAddress_def)

subsection \<open>Frames that fail to parse\<close>

lemma example_parse: "JSON_parse example_host ''<html>'' = Inl (SyntaxError ''Unexpected token in JSON'')"
  by (simp add: example_host_def)

text \<open>
  When \<open>JSON.parse\<close> throws, \<open>parseData\<close> returns what \<open>emit\<close> returns. With a
  listener for \<open>error\<close> that is \<open>true\<close>, which \<open>onMessage\<close> takes for a payload and
  emits as a \<open>message\<close> (a boolean inherits no \<open>NotificationContainer\<close>, so nothing
  more is emitted); without one, \<open>emit\<close> throws the error.
\<close>

lemma example_no_container:
  "inherited example_runtime (JBool True) ''NotificationContainer'' = JUndefined"
  by (simp add: example_runtime_def)

lemma onMessage_unparsable:
  "JSON_parse h d = Inl err \<Longrightarrow> inherited rt (JBool True) ''NotificationContainer'' = JUndefined \<Longrightarrow>
     onMessage h rt d t =
       (if N_error \<in> set (listeners t)
        then (None, t\<lparr>emitted := emitted t @ [EvError err, EvMessage (JBool True)]\<rparr>)
        else (Some err, t\<lparr>emitted := emitted t @ [EvError err]\<rparr>))"
  by (simp add: onMessage_def parseData_def emit_def notification_def Let_def)

text \<open>
  C1 fails on the code. A transport with a listener for \<open>error\<close> receives the frame
  \<open><html>\<close>, which does not parse: it emits \<open>error\<close> and then a \<open>message\<close> event
  whose payload is \<open>true\<close>.
\<close>

theorem unparsable_frame_emits_message:
  "emitted (run example_host example_runtime [AddListener N_error, SockMessage ''<html>'']
      (snd (PlexSocket example_host example_runtime example_options)))
   = [EvError (SyntaxError ''Unexpected token in JSON''), EvMessage (JBool True)]"
  by (simp add: example_transport onMessage_unparsable [OF example_parse example_no_container])

subsection \<open>The heartbeat timers on the example transport\<close>








end
